theory Spec2Isabelle
  imports Main "HOL-Library.Multiset"
begin

section \<open>Data model\<close>

text \<open>
  The handlers of \<open>app/app.py\<close> work on two tables, \<open>user\<close> and \<open>post\<close>. Their
  column declarations live in \<open>app/db.py\<close>; the handlers read the columns below.
  A UUID is modelled by its 128-bit integer value, a timestamp by a point on a
  linear time axis. The string forms \<open>str(uuid)\<close> and \<open>datetime.isoformat()\<close> are
  library functions and are taken as parameters (\<open>str_uuid\<close>, \<open>isoformat\<close>) by the
  handlers that call them.
\<close>

type_synonym uuid = nat
type_synonym datetime = int

record User =
  User_id :: uuid
  User_email :: string

record Post =
  Post_id :: uuid
  Post_user_id :: uuid
  Post_caption :: string
  Post_url :: string
  Post_file_type :: string
  Post_file_name :: string
  Post_created_at :: datetime

text \<open>
  Handles on files: the stream of the uploaded file (\<open>file.file\<close>), the handle that
  \<open>NamedTemporaryFile\<close> opens on the temporary file, and the handle that
  \<open>open(temp_file_path, "rb")\<close> opens on it.
\<close>

datatype handle = UploadStream | TempWrite string | TempRead string

text \<open>
  The state the handlers act on: the committed rows of both tables in insertion
  order, the paths present in the filesystem and the handles that are open.
  Reads of the tables, \<open>os.unlink\<close> and \<open>close\<close> are modelled as succeeding; the
  calls whose failure the handlers are written for take their outcome from an
  environment.
\<close>

record world =
  post_table :: "Post list"
  user_table :: "User list"
  files :: "string set"
  handles :: "handle set"

section \<open>Exceptions and handler results\<close>

text \<open>
  A handler returns a value or raises. \<open>HTTPException\<close> carries \<open>status_code\<close> and
  \<open>detail\<close>; the other constructors are the exceptions that the interpreter and the
  library calls raise, each carrying its message (\<open>UnboundLocalError\<close>, whose message
  depends on the interpreter version, carries the name of the unbound local). A
  handler result is \<open>exn + 'a\<close>, \<open>Inl\<close> being the exception that leaves the handler.
\<close>

datatype exn =
    HTTPException nat string
  | TypeError string
  | AttributeError string
  | ValueError string
  | UnboundLocalError string
  | OSError string
  | Exception string

definition digit_char :: "nat \<Rightarrow> char" where
  "digit_char d = ''0123456789'' ! d"

function str_nat :: "nat \<Rightarrow> string" where
  "str_nat n = (if n < 10 then [digit_char n] else str_nat (n div 10) @ [digit_char (n mod 10)])"
  by pat_completeness auto
termination
  by (relation "measure (\<lambda>n. n)") auto

declare str_nat.simps [simp del]

text \<open>
  \<open>str(e)\<close>. For \<open>HTTPException\<close> it is \<open>f"{status_code}: {detail}"\<close> (Starlette's
  \<open>__str__\<close>); for the others it is the string carried.
\<close>

fun str_exn :: "exn \<Rightarrow> string" where
  "str_exn (HTTPException status_code detail) = str_nat status_code @ '': '' @ detail"
| "str_exn (TypeError msg) = msg"
| "str_exn (AttributeError msg) = msg"
| "str_exn (ValueError msg) = msg"
| "str_exn (UnboundLocalError msg) = msg"
| "str_exn (OSError msg) = msg"
| "str_exn (Exception msg) = msg"

text \<open>
  \<open>except Exception as e: raise HTTPException(status_code=500, detail=str(e))\<close>, the
  clause that closes the \<open>try\<close> of \<open>upload_file\<close> and of \<open>delete_post\<close>. Every
  constructor of \<open>exn\<close> is a subclass of \<open>Exception\<close>, \<open>HTTPException\<close> included.
\<close>

definition except_Exception :: "exn + 'a \<Rightarrow> exn + 'a" where
  "except_Exception r = (case r of Inl e \<Rightarrow> Inl (HTTPException 500 (str_exn e)) | Inr v \<Rightarrow> Inr v)"

text \<open>A name between apostrophes, as the interpreter prints it in a message.\<close>

definition quoted :: "string \<Rightarrow> string" where
  "quoted s = [CHR 0x27] @ s @ [CHR 0x27]"

text \<open>\<open>s.startswith(p)\<close>.\<close>

definition startswith :: "string \<Rightarrow> string \<Rightarrow> bool" where
  "startswith s p = (take (length p) s = p)"

section \<open>Upload: \<open>upload_file\<close>\<close>

text \<open>
  The \<open>UploadFile\<close> argument: \<open>filename\<close> and \<open>content_type\<close> are optional strings;
  its stream \<open>file.file\<close> is the handle \<open>UploadStream\<close>.
\<close>

record UploadFile =
  filename :: "string option"
  content_type :: "string option"

text \<open>What the handler reads of the value that \<open>imagekit.upload_file\<close> returns.\<close>

record UploadResult =
  http_status_code :: int
  url :: string
  name :: string

text \<open>
  The outcomes of the calls that leave the handler, one field a call, in the order
  of the calls: \<open>Inl msg\<close> or \<open>Some msg\<close> is the call raising an exception with that
  message. \<open>NamedTemporaryFile\<close> yields the path of the file it created, the
  Storage call yields its response, the commit yields the \<open>id\<close> and \<open>created_at\<close>
  that the database generates for the inserted row.
\<close>

record upload_env =
  NamedTemporaryFile :: "string + string"
  copyfileobj :: "string option"
  open_rb :: "string option"
  imagekit_upload_file :: "string + UploadResult"
  session_commit :: "string + (uuid \<times> datetime)"
  session_refresh :: "string option"

text \<open>
  \<open>Post(user_id=..., caption=..., url=..., file_type=..., file_name=...)\<close>: the
  object is complete once the database has generated \<open>id\<close> and \<open>created_at\<close>.
\<close>

definition new_Post ::
  "uuid \<Rightarrow> string \<Rightarrow> string \<Rightarrow> string \<Rightarrow> string \<Rightarrow> uuid \<times> datetime \<Rightarrow> Post" where
  "new_Post user_id caption url' file_type file_name generated =
     \<lparr> Post_id = fst generated,
       Post_user_id = user_id,
       Post_caption = caption,
       Post_url = url',
       Post_file_type = file_type,
       Post_file_name = file_name,
       Post_created_at = snd generated \<rparr>"

text \<open>
  Lines 51 to 71, inside the \<open>try\<close>, with \<open>temp_file_path\<close> bound: the temporary file
  is opened for reading, the payload is forwarded, and on status 200 the post is
  built, added, committed and refreshed. On any other status the \<open>if\<close> has no
  branch and the handler falls through, returning \<open>None\<close>.

  The handle of \<open>open(temp_file_path, "rb")\<close> is bound to no name and no statement
  closes it: it lives as long as the Storage call refers to it. When the call
  returns, the last reference is dropped and the interpreter finalises the file
  object, which closes the handle. When the call raises, the traceback of the
  exception holds the frames of the call and with them the file object; the
  \<open>except\<close> clause chains that exception to the \<open>HTTPException\<close> it raises, so the
  handle is still open when the exception leaves the handler.
\<close>

definition upload_forward ::
  "upload_env \<Rightarrow> UploadFile \<Rightarrow> string \<Rightarrow> User \<Rightarrow> string \<Rightarrow> world \<Rightarrow> (exn + Post option) \<times> world" where
  "upload_forward env file caption user temp_file_path w =
     (case open_rb env of
        Some msg \<Rightarrow> (Inl (OSError msg), w)
      | None \<Rightarrow>
          let w1 = w\<lparr> handles := insert (TempRead temp_file_path) (handles w) \<rparr> in
          (case imagekit_upload_file env of
             Inl msg \<Rightarrow> (Inl (Exception msg), w1)
           | Inr upload_result \<Rightarrow>
               let w2 = w1\<lparr> handles := handles w1 - {TempRead temp_file_path} \<rparr> in
               if http_status_code upload_result = 200 then
                 (case content_type file of
                    None \<Rightarrow> (Inl (AttributeError (quoted ''NoneType'' @ '' object has no attribute ''
                                 @ quoted ''startswith'')), w2)
                  | Some ct \<Rightarrow>
                      let post = new_Post (User_id user) caption (url upload_result)
                                   (if startswith ct ''video/'' then ''video'' else ''image'')
                                   (name upload_result) in
                      (case session_commit env of
                         Inl msg \<Rightarrow> (Inl (Exception msg), w2)
                       | Inr generated \<Rightarrow>
                           let w3 = w2\<lparr> post_table := post_table w2 @ [post generated] \<rparr> in
                           (case session_refresh env of
                              Some msg \<Rightarrow> (Inl (Exception msg), w3)
                            | None \<Rightarrow> (Inr (Some (post generated)), w3))))
               else (Inr None, w2)))"

text \<open>
  The body of the \<open>try\<close> (lines 45 to 71). Besides the result and the state it
  yields the binding of the local \<open>temp_file_path\<close>: \<open>None\<close> when the assignment of
  line 47 was not reached. \<open>os.path.splitext\<close> raises \<open>TypeError\<close> on a filename that
  is \<open>None\<close>; the suffix it computes only decides the name that
  \<open>NamedTemporaryFile\<close> picks, which is the outcome in \<open>env\<close>. Leaving the \<open>with\<close>
  block closes the handle it opened, on the normal and on the exceptional exit.
\<close>

definition upload_try ::
  "upload_env \<Rightarrow> UploadFile \<Rightarrow> string \<Rightarrow> User \<Rightarrow> world \<Rightarrow> (exn + Post option) \<times> string option \<times> world" where
  "upload_try env file caption user w =
     (case filename file of
        None \<Rightarrow> (Inl (TypeError ''expected str, bytes or os.PathLike object, not NoneType''), None, w)
      | Some fname \<Rightarrow>
          (case NamedTemporaryFile env of
             Inl msg \<Rightarrow> (Inl (OSError msg), None, w)
           | Inr temp_file_path \<Rightarrow>
               let w1 = w\<lparr> files := insert temp_file_path (files w),
                            handles := insert (TempWrite temp_file_path) (handles w) \<rparr>;
                   w2 = w1\<lparr> handles := handles w1 - {TempWrite temp_file_path} \<rparr> in
               (case copyfileobj env of
                  Some msg \<Rightarrow> (Inl (OSError msg), Some temp_file_path, w2)
                | None \<Rightarrow>
                    (case upload_forward env file caption user temp_file_path w2 of
                       (r, w3) \<Rightarrow> (r, Some temp_file_path, w3)))))"

text \<open>
  The \<open>finally\<close> clause (lines 76 to 78). It reads \<open>temp_file_path\<close>; the variable
  that line 42 initialises is \<open>temp_file\<close>, so with \<open>temp_file_path\<close> unbound the
  read raises \<open>UnboundLocalError\<close>, which replaces the exception in flight and skips
  \<open>file.file.close()\<close>.
\<close>

definition upload_finally ::
  "string option \<Rightarrow> (exn + Post option) \<Rightarrow> world \<Rightarrow> (exn + Post option) \<times> world" where
  "upload_finally temp_file_path r w =
     (case temp_file_path of
        None \<Rightarrow> (Inl (UnboundLocalError ''temp_file_path''), w)
      | Some p \<Rightarrow>
          let w1 = (if p \<noteq> [] \<and> p \<in> files w then w\<lparr> files := files w - {p} \<rparr> else w);
              w2 = w1\<lparr> handles := handles w1 - {UploadStream} \<rparr>
          in (r, w2))"

definition upload_file ::
  "upload_env \<Rightarrow> UploadFile \<Rightarrow> string \<Rightarrow> User \<Rightarrow> world \<Rightarrow> (exn + Post option) \<times> world" where
  "upload_file env file caption user w =
     (case upload_try env file caption user w of
        (r, temp_file_path, w1) \<Rightarrow> upload_finally temp_file_path (except_Exception r) w1)"

section \<open>Feed listing: \<open>get_feed\<close>\<close>

text \<open>The dictionary built for every post in the loop of \<open>get_feed\<close>.\<close>

record feed_item =
  item_id :: string
  item_user_id :: string
  item_caption :: string
  item_url :: string
  item_file_type :: string
  item_file_name :: string
  item_created_at :: string
  is_owner :: bool
  email :: string

record feed_response =
  posts :: "feed_item list"

text \<open>
  \<open>session.execute(Select(Post).order_by(Post.created_at.desc()))\<close>: a read of the
  post table, greatest \<open>created_at\<close> first. The session is threaded through.
\<close>

definition select_posts_desc :: "world \<Rightarrow> Post list \<times> world" where
  "select_posts_desc w = (rev (sort_key Post_created_at (post_table w)), w)"

text \<open>\<open>session.execute(Select(User))\<close>: a read of the user table.\<close>

definition select_users :: "world \<Rightarrow> User list \<times> world" where
  "select_users w = (user_table w, w)"

text \<open>
  \<open>{u.id: u.email for u in users}\<close>: the comprehension stores the entries in list
  order, a later entry replacing an earlier one under the same key.
\<close>

definition user_dict :: "User list \<Rightarrow> (uuid \<rightharpoonup> string)" where
  "user_dict users = foldl (\<lambda>m u. m(User_id u \<mapsto> User_email u)) Map.empty users"

text \<open>\<open>d.get(k, default)\<close>.\<close>

definition dict_get :: "('k \<rightharpoonup> 'v) \<Rightarrow> 'k \<Rightarrow> 'v \<Rightarrow> 'v" where
  "dict_get d k dflt = (case d k of None \<Rightarrow> dflt | Some v \<Rightarrow> v)"

text \<open>The dictionary appended for one post (lines 97 to 107).\<close>

definition post_data ::
  "(uuid \<Rightarrow> string) \<Rightarrow> (datetime \<Rightarrow> string) \<Rightarrow> (uuid \<rightharpoonup> string) \<Rightarrow> User \<Rightarrow> Post \<Rightarrow> feed_item" where
  "post_data str_uuid isoformat udict user post =
     \<lparr> item_id = str_uuid (Post_id post),
       item_user_id = str_uuid (Post_user_id post),
       item_caption = Post_caption post,
       item_url = Post_url post,
       item_file_type = Post_file_type post,
       item_file_name = Post_file_name post,
       item_created_at = isoformat (Post_created_at post),
       is_owner = (Post_user_id post = User_id user),
       email = dict_get udict (Post_user_id post) ''Unknown'' \<rparr>"

text \<open>The loop \<open>for post in posts: posts_data.append(...)\<close>.\<close>

fun append_posts_data ::
  "(uuid \<Rightarrow> string) \<Rightarrow> (datetime \<Rightarrow> string) \<Rightarrow> (uuid \<rightharpoonup> string) \<Rightarrow> User \<Rightarrow>
   feed_item list \<Rightarrow> Post list \<Rightarrow> feed_item list" where
  "append_posts_data str_uuid isoformat udict user posts_data [] = posts_data"
| "append_posts_data str_uuid isoformat udict user posts_data (post # rest) =
     append_posts_data str_uuid isoformat udict user
       (posts_data @ [post_data str_uuid isoformat udict user post]) rest"

definition get_feed ::
  "(uuid \<Rightarrow> string) \<Rightarrow> (datetime \<Rightarrow> string) \<Rightarrow> world \<Rightarrow> User \<Rightarrow> feed_response \<times> world" where
  "get_feed str_uuid isoformat w user =
     (case select_posts_desc w of (post_rows, w1) \<Rightarrow>
      case select_users w1 of (users, w2) \<Rightarrow>
        (\<lparr> posts = append_posts_data str_uuid isoformat (user_dict users) user [] post_rows \<rparr>, w2))"

section \<open>Delete: \<open>delete_post\<close>\<close>

record delete_response =
  success :: bool
  message :: string

text \<open>
  The body of the \<open>try\<close> (lines 116 to 128). \<open>UUID\<close> is \<open>uuid.UUID\<close>, a library
  function taken as a parameter: \<open>Inl msg\<close> is its \<open>ValueError\<close>. The select returns
  the first row with the id; \<open>session.delete\<close> with the commit removes the row with
  that primary key; \<open>commit\<close> is the outcome of the commit, \<open>Some msg\<close> when it
  raises.
\<close>

definition delete_try ::
  "(string \<Rightarrow> string + uuid) \<Rightarrow> string option \<Rightarrow> string \<Rightarrow> world \<Rightarrow> User \<Rightarrow>
   (exn + delete_response) \<times> world" where
  "delete_try UUID commit post_id w user =
     (case UUID post_id of
        Inl msg \<Rightarrow> (Inl (ValueError msg), w)
      | Inr post_uuid \<Rightarrow>
          (case find (\<lambda>p. Post_id p = post_uuid) (post_table w) of
             None \<Rightarrow> (Inl (HTTPException 404 ''Post not found''), w)
           | Some post \<Rightarrow>
               if Post_user_id post \<noteq> User_id user then
                 (Inl (HTTPException 403 ''You didn't have access to delete this post.''), w)
               else
                 (case commit of
                    Some msg \<Rightarrow> (Inl (Exception msg), w)
                  | None \<Rightarrow>
                      (Inr \<lparr> success = True, message = ''Post Deleted Successfully'' \<rparr>,
                       w\<lparr> post_table := filter (\<lambda>p. Post_id p \<noteq> Post_id post) (post_table w) \<rparr>))))"

definition delete_post ::
  "(string \<Rightarrow> string + uuid) \<Rightarrow> string option \<Rightarrow> string \<Rightarrow> world \<Rightarrow> User \<Rightarrow>
   (exn + delete_response) \<times> world" where
  "delete_post UUID commit post_id w user =
     (case delete_try UUID commit post_id w user of (r, w1) \<Rightarrow> (except_Exception r, w1))"

section \<open>Concrete inputs\<close>

text \<open>
  A stand-in for \<open>uuid.UUID\<close> on plain hexadecimal strings: hyphens are dropped,
  32 hexadecimal digits are required, and their value is the UUID. It instantiates
  the parameter \<open>UUID\<close> of \<open>delete_post\<close> where a concrete call is evaluated.
\<close>

definition hex_digit :: "char \<Rightarrow> nat option" where
  "hex_digit c =
     (let n = (of_char c :: nat) in
      if 48 \<le> n \<and> n \<le> 57 then Some (n - 48)
      else if 97 \<le> n \<and> n \<le> 102 then Some (n - 87)
      else if 65 \<le> n \<and> n \<le> 70 then Some (n - 55)
      else None)"

fun hex_int :: "string \<Rightarrow> nat \<Rightarrow> nat option" where
  "hex_int [] acc = Some acc"
| "hex_int (c # cs) acc = (case hex_digit c of None \<Rightarrow> None | Some d \<Rightarrow> hex_int cs (16 * acc + d))"

definition UUID_plain :: "string \<Rightarrow> string + uuid" where
  "UUID_plain s =
     (let hex = filter (\<lambda>c. c \<noteq> CHR ''-'') s in
      if length hex \<noteq> 32 then Inl ''badly formed hexadecimal UUID string''
      else case hex_int hex 0 of
             None \<Rightarrow> Inl ''invalid literal for int() with base 16''
           | Some n \<Rightarrow> Inr n)"

text \<open>A caller, an uploaded image and an uploaded video.\<close>

definition user_a :: User where
  "user_a = \<lparr> User_id = 1, User_email = ''a@example.com'' \<rparr>"

definition file_png :: UploadFile where
  "file_png = \<lparr> filename = Some ''cat.png'', content_type = Some ''image/png'' \<rparr>"

definition file_mp4 :: UploadFile where
  "file_mp4 = \<lparr> filename = Some ''clip.mp4'', content_type = Some ''video/mp4'' \<rparr>"

text \<open>A state with two posts, the author of one of them absent from the user table.\<close>

definition feed_world :: world where
  "feed_world = \<lparr> post_table =
       [\<lparr> Post_id = 10, Post_user_id = 1, Post_caption = ''a'', Post_url = ''u1'',
          Post_file_type = ''image'', Post_file_name = ''f1'', Post_created_at = 100 \<rparr>,
        \<lparr> Post_id = 11, Post_user_id = 2, Post_caption = ''b'', Post_url = ''u2'',
          Post_file_type = ''video'', Post_file_name = ''f2'', Post_created_at = 200 \<rparr>],
     user_table = [user_a],
     files = {}, handles = {} \<rparr>"

text \<open>A state with no post, one user and the stream of the upload open.\<close>

definition world0 :: world where
  "world0 = \<lparr> post_table = [], user_table = [user_a], files = {}, handles = {UploadStream} \<rparr>"

text \<open>An upload in which every call succeeds and Storage answers 200.\<close>

definition env_ok :: upload_env where
  "env_ok = \<lparr> NamedTemporaryFile = Inr ''/tmp/tmpk3x9'',
              copyfileobj = None,
              open_rb = None,
              imagekit_upload_file =
                Inr \<lparr> http_status_code = 200, url = ''https://ik.example/cat_Ab12'', name = ''cat_Ab12'' \<rparr>,
              session_commit = Inr (7, 1000),
              session_refresh = None \<rparr>"

text \<open>The same upload with the commit raising.\<close>

definition env_commit_fails :: upload_env where
  "env_commit_fails = env_ok\<lparr> session_commit := Inl ''connection lost'' \<rparr>"

text \<open>The same upload with Storage answering 500 without raising.\<close>

definition env_status_500 :: upload_env where
  "env_status_500 = env_ok\<lparr> imagekit_upload_file :=
       Inr \<lparr> http_status_code = 500, url = [], name = [] \<rparr> \<rparr>"

text \<open>The same upload with the Storage call raising.\<close>

definition env_storage_raises :: upload_env where
  "env_storage_raises = env_ok\<lparr> imagekit_upload_file := Inl ''upload failed'' \<rparr>"

text \<open>An upload in which the temporary file cannot be created.\<close>

definition env_no_tempfile :: upload_env where
  "env_no_tempfile = env_ok\<lparr> NamedTemporaryFile := Inl ''No space left on device'' \<rparr>"

text \<open>
  In the concrete evaluations of \<open>get_feed\<close> the two string conversions are
  instantiated by decimal printing.
\<close>

definition str_uuid_dec :: "uuid \<Rightarrow> string" where
  "str_uuid_dec u = str_nat u"

definition isoformat_dec :: "datetime \<Rightarrow> string" where
  "isoformat_dec t = str_nat (nat t)"

section \<open>Properties of the feed\<close>

lemma append_posts_data_map:
  "append_posts_data s i d u acc ps = acc @ map (post_data s i d u) ps"
  by (induction ps arbitrary: acc) simp_all

lemma get_feed_posts:
  "posts (fst (get_feed s i w u)) =
     map (post_data s i (user_dict (user_table w)) u) (fst (select_posts_desc w))"
  by (simp add: get_feed_def select_posts_desc_def select_users_def append_posts_data_map)

lemma select_posts_desc_sorted:
  "sorted_wrt (\<lambda>a b. Post_created_at a \<ge> Post_created_at b) (fst (select_posts_desc w))"
proof -
  have "sorted (map Post_created_at (sort_key Post_created_at (post_table w)))"
    by (rule sorted_sort_key)
  then have "sorted_wrt (\<lambda>a b. Post_created_at a \<le> Post_created_at b)
               (sort_key Post_created_at (post_table w))"
    by (simp add: sorted_map)
  then show ?thesis
    by (simp add: select_posts_desc_def sorted_wrt_rev)
qed

lemma select_posts_desc_mset:
  "mset (fst (select_posts_desc w)) = mset (post_table w)"
  by (simp add: select_posts_desc_def)

text \<open>
  C5. The posts of the feed are the projections, in order, of the rows of the post
  table arranged by \<open>created_at\<close> descending: the arranged rows are exactly the rows
  of the table (as a multiset, so every row has its projection), each one's
  \<open>created_at\<close> is at least that of every later one, and the response lists their
  projections in that order.
\<close>

theorem get_feed_sorted_desc_all_rows:
  "mset (fst (select_posts_desc w)) = mset (post_table w)
   \<and> sorted_wrt (\<lambda>a b. Post_created_at a \<ge> Post_created_at b) (fst (select_posts_desc w))
   \<and> posts (fst (get_feed str_uuid isoformat w user)) =
       map (post_data str_uuid isoformat (user_dict (user_table w)) user) (fst (select_posts_desc w))"
  using select_posts_desc_mset select_posts_desc_sorted get_feed_posts by blast

theorem get_feed_sorted_desc_all_rows_witness:
  "map Post_created_at (post_table feed_world) = [100, 200]
   \<and> map Post_created_at (fst (select_posts_desc feed_world)) = [200, 100]
   \<and> map item_created_at (posts (fst (get_feed str_uuid_dec isoformat_dec feed_world user_a)))
       = [''200'', ''100'']"
  using get_feed_sorted_desc_all_rows [of feed_world str_uuid_dec isoformat_dec user_a]
  by (simp add: select_posts_desc_def feed_world_def post_data_def isoformat_dec_def
        str_nat.simps digit_char_def)

lemma user_dict_foldl_None:
  "foldl (\<lambda>m u. m(User_id u \<mapsto> User_email u)) m0 us k = None
     \<longleftrightarrow> m0 k = None \<and> (\<forall>u\<in>set us. User_id u \<noteq> k)"
proof (induction us arbitrary: m0)
  case Nil
  show ?case by simp
next
  case (Cons a us)
  show ?case unfolding foldl_Cons Cons.IH by auto
qed

lemma user_dict_foldl_Some:
  "foldl (\<lambda>m u. m(User_id u \<mapsto> User_email u)) m0 us k = Some e
     \<Longrightarrow> m0 k = Some e \<or> (\<exists>u\<in>set us. User_id u = k \<and> User_email u = e)"
proof (induction us arbitrary: m0)
  case Nil
  then show ?case by simp
next
  case (Cons a us)
  from Cons.prems
  have "foldl (\<lambda>m u. m(User_id u \<mapsto> User_email u)) (m0(User_id a \<mapsto> User_email a)) us k = Some e"
    unfolding foldl_Cons .
  from Cons.IH [OF this] show ?case
    by (auto split: if_splits)
qed

lemma user_dict_None:
  "user_dict us k = None \<longleftrightarrow> (\<forall>u\<in>set us. User_id u \<noteq> k)"
  unfolding user_dict_def user_dict_foldl_None by simp

lemma user_dict_Some:
  "user_dict us k = Some e \<Longrightarrow> \<exists>u\<in>set us. User_id u = k \<and> User_email u = e"
  unfolding user_dict_def using user_dict_foldl_Some [of Map.empty us k e] by simp

lemma user_dict_absent:
  assumes "\<forall>u\<in>set us. User_id u \<noteq> k"
  shows "dict_get (user_dict us) k d = d"
proof -
  from assms have "user_dict us k = None" by (simp add: user_dict_None)
  then show ?thesis by (simp add: dict_get_def)
qed

lemma user_dict_present:
  assumes "\<exists>u\<in>set us. User_id u = k"
  shows "\<exists>u\<in>set us. User_id u = k \<and> dict_get (user_dict us) k d = User_email u"
proof (cases "user_dict us k")
  case None
  with assms show ?thesis
    by (simp add: user_dict_None)
next
  case (Some e)
  from user_dict_Some [OF Some] Some show ?thesis
    by (auto simp: dict_get_def)
qed

lemma feed_world_rows: "fst (select_posts_desc feed_world) = rev (post_table feed_world)"
  by (simp add: select_posts_desc_def feed_world_def)

text \<open>
  C6. In the feed, the \<open>is_owner\<close> field of the projection of a post is true exactly
  when the \<open>user_id\<close> of that post equals the id of the caller.
\<close>

theorem get_feed_is_owner:
  "list_all2 (\<lambda>post item. is_owner item = (Post_user_id post = User_id user))
     (fst (select_posts_desc w)) (posts (fst (get_feed str_uuid isoformat w user)))"
  by (simp add: get_feed_posts list_all2_map2 list_all2_same post_data_def)

theorem get_feed_is_owner_witness:
  "map Post_user_id (fst (select_posts_desc feed_world)) = [2, 1] \<and> User_id user_a = 1
   \<and> map is_owner (posts (fst (get_feed str_uuid_dec isoformat_dec feed_world user_a)))
       = [False, True]"
  using get_feed_is_owner [of user_a feed_world str_uuid_dec isoformat_dec]
  by (simp add: get_feed_posts feed_world_rows) (simp add: feed_world_def user_a_def post_data_def)

text \<open>
  C7. In the feed, the \<open>email\<close> field of the projection of a post is the email of a
  user row whose id is the \<open>user_id\<close> of the post when such a row exists, and the
  literal \<open>Unknown\<close> when the user table has no row with that id.
\<close>

theorem get_feed_email:
  "list_all2 (\<lambda>post item.
       if (\<exists>u\<in>set (user_table w). User_id u = Post_user_id post)
       then (\<exists>u\<in>set (user_table w). User_id u = Post_user_id post \<and> email item = User_email u)
       else email item = ''Unknown'')
     (fst (select_posts_desc w)) (posts (fst (get_feed str_uuid isoformat w user)))"
  unfolding get_feed_posts list_all2_map2 list_all2_same
proof
  fix post
  assume "post \<in> set (fst (select_posts_desc w))"
  show "if (\<exists>u\<in>set (user_table w). User_id u = Post_user_id post)
        then (\<exists>u\<in>set (user_table w). User_id u = Post_user_id post \<and>
                email (post_data str_uuid isoformat (user_dict (user_table w)) user post) = User_email u)
        else email (post_data str_uuid isoformat (user_dict (user_table w)) user post) = ''Unknown''"
  proof (cases "\<exists>u\<in>set (user_table w). User_id u = Post_user_id post")
    case True
    from user_dict_present [OF True, of "''Unknown''"] True
    show ?thesis by (simp add: post_data_def)
  next
    case False
    then have "\<forall>u\<in>set (user_table w). User_id u \<noteq> Post_user_id post" by blast
    from user_dict_absent [OF this, of "''Unknown''"] False
    show ?thesis by (simp add: post_data_def)
  qed
qed

theorem get_feed_email_witness:
  "1 \<in> User_id ` set (user_table feed_world) \<and> 2 \<notin> User_id ` set (user_table feed_world)
   \<and> map Post_user_id (fst (select_posts_desc feed_world)) = [2, 1]
   \<and> map email (posts (fst (get_feed str_uuid_dec isoformat_dec feed_world user_a)))
       = [''Unknown'', ''a@example.com'']"
  using get_feed_email [of feed_world str_uuid_dec isoformat_dec user_a]
  by (simp add: get_feed_posts feed_world_rows) (simp add: feed_world_def user_a_def)

text \<open>
  C10. A feed call leaves the state as it was: the post table and the user table
  (and the filesystem and the open handles) after the call are those before it.
\<close>

theorem get_feed_read_only:
  "snd (get_feed str_uuid isoformat w user) = w"
  by (simp add: get_feed_def select_posts_desc_def select_users_def)

theorem get_feed_read_only_witness:
  "snd (get_feed str_uuid_dec isoformat_dec feed_world user_a) = feed_world"
  using get_feed_read_only [of str_uuid_dec isoformat_dec feed_world user_a]
  by simp

section \<open>Properties of the upload\<close>

lemmas upload_defs = upload_file_def upload_try_def upload_forward_def upload_finally_def
  except_Exception_def Let_def

lemmas upload_inputs = env_ok_def file_png_def file_mp4_def user_a_def world0_def
  new_Post_def startswith_def

text \<open>The post table after an upload, by the outcomes of the calls.\<close>

lemma upload_file_post_table:
  "post_table (snd (upload_file env file caption user w)) =
     (case (filename file, NamedTemporaryFile env, copyfileobj env, open_rb env,
            imagekit_upload_file env, content_type file, session_commit env) of
        (Some fname, Inr p, None, None, Inr res, Some ct, Inr g) \<Rightarrow>
          if http_status_code res = 200
          then post_table w @ [new_Post (User_id user) caption (url res)
                 (if startswith ct ''video/'' then ''video'' else ''image'') (name res) g]
          else post_table w
      | _ \<Rightarrow> post_table w)"
  by (simp add: upload_defs split: option.splits sum.splits prod.splits)

text \<open>When an upload returns a post, and which.\<close>

lemma upload_file_returns_post:
  "fst (upload_file env file caption user w) = Inr (Some post) \<longleftrightarrow>
     (\<exists>fname p res ct g. filename file = Some fname \<and> NamedTemporaryFile env = Inr p
        \<and> copyfileobj env = None \<and> open_rb env = None \<and> imagekit_upload_file env = Inr res
        \<and> http_status_code res = 200 \<and> content_type file = Some ct \<and> session_commit env = Inr g
        \<and> session_refresh env = None
        \<and> post = new_Post (User_id user) caption (url res)
                 (if startswith ct ''video/'' then ''video'' else ''image'') (name res) g)"
  by (auto simp: upload_defs split: option.splits sum.splits prod.splits)

text \<open>
  C1, as the claim states it, fails: with Storage answering 200 and the commit
  raising, the upload inserts no row and the caller gets status 500.
\<close>

theorem upload_file_status_200_no_row:
  "imagekit_upload_file env_commit_fails =
       Inr \<lparr> http_status_code = 200, url = ''https://ik.example/cat_Ab12'', name = ''cat_Ab12'' \<rparr>
   \<and> post_table (snd (upload_file env_commit_fails file_png ''hello'' user_a world0)) = post_table world0
   \<and> fst (upload_file env_commit_fails file_png ''hello'' user_a world0)
       = Inl (HTTPException 500 ''connection lost'')"
  by (simp add: upload_defs env_commit_fails_def upload_inputs)

text \<open>
  C1, amended. An upload inserts a row into the post table if and only if Storage
  answers 200 and no call up to and including the commit raises: the filename and
  the content type are present, the temporary file is created, written and
  reopened, and the commit succeeds. When it does, exactly one row is appended to
  the table; its \<open>user_id\<close> is the caller's id, its caption the one given, its
  \<open>url\<close> and \<open>file_name\<close> those of the Storage response, its \<open>id\<close> and \<open>created_at\<close>
  those the database generated; and if the refresh succeeds that row is what the
  caller receives. A post that the caller receives is always the row appended.
\<close>

theorem upload_file_commits_post:
  "((post_table (snd (upload_file env file caption user w)) \<noteq> post_table w)
      = (filename file \<noteq> None \<and> (\<exists>p. NamedTemporaryFile env = Inr p)
         \<and> copyfileobj env = None \<and> open_rb env = None
         \<and> (\<exists>res. imagekit_upload_file env = Inr res \<and> http_status_code res = 200)
         \<and> content_type file \<noteq> None \<and> (\<exists>g. session_commit env = Inr g)))
   \<and> (\<forall>res g. imagekit_upload_file env = Inr res \<and> session_commit env = Inr g
          \<and> post_table (snd (upload_file env file caption user w)) \<noteq> post_table w \<longrightarrow>
        (\<exists>post. post_table (snd (upload_file env file caption user w)) = post_table w @ [post]
           \<and> Post_user_id post = User_id user \<and> Post_caption post = caption
           \<and> Post_url post = url res \<and> Post_file_name post = name res
           \<and> Post_id post = fst g \<and> Post_created_at post = snd g
           \<and> (session_refresh env = None \<longrightarrow>
                fst (upload_file env file caption user w) = Inr (Some post))))
   \<and> (\<forall>post. fst (upload_file env file caption user w) = Inr (Some post) \<longrightarrow>
        post_table (snd (upload_file env file caption user w)) = post_table w @ [post])"
proof (intro conjI allI impI)
  show "(post_table (snd (upload_file env file caption user w)) \<noteq> post_table w)
      = (filename file \<noteq> None \<and> (\<exists>p. NamedTemporaryFile env = Inr p)
         \<and> copyfileobj env = None \<and> open_rb env = None
         \<and> (\<exists>res. imagekit_upload_file env = Inr res \<and> http_status_code res = 200)
         \<and> content_type file \<noteq> None \<and> (\<exists>g. session_commit env = Inr g))"
    by (auto simp: upload_file_post_table split: option.splits sum.splits)
next
  fix res g
  assume a: "imagekit_upload_file env = Inr res \<and> session_commit env = Inr g
          \<and> post_table (snd (upload_file env file caption user w)) \<noteq> post_table w"
  then obtain fname p ct where b: "filename file = Some fname" "NamedTemporaryFile env = Inr p"
      "copyfileobj env = None" "open_rb env = None" "http_status_code res = 200"
      "content_type file = Some ct"
    by (auto simp: upload_file_post_table split: option.splits sum.splits if_splits)
  let ?post = "new_Post (User_id user) caption (url res)
                 (if startswith ct ''video/'' then ''video'' else ''image'') (name res) g"
  have "post_table (snd (upload_file env file caption user w)) = post_table w @ [?post]"
    using a b by (simp add: upload_file_post_table)
  moreover have "session_refresh env = None \<longrightarrow>
      fst (upload_file env file caption user w) = Inr (Some ?post)"
    using a b by (simp add: upload_file_returns_post)
  ultimately show "\<exists>post. post_table (snd (upload_file env file caption user w)) = post_table w @ [post]
           \<and> Post_user_id post = User_id user \<and> Post_caption post = caption
           \<and> Post_url post = url res \<and> Post_file_name post = name res
           \<and> Post_id post = fst g \<and> Post_created_at post = snd g
           \<and> (session_refresh env = None \<longrightarrow>
                fst (upload_file env file caption user w) = Inr (Some post))"
    by (intro exI [of _ ?post]) (simp add: new_Post_def)
next
  fix post
  assume "fst (upload_file env file caption user w) = Inr (Some post)"
  then show "post_table (snd (upload_file env file caption user w)) = post_table w @ [post]"
    by (auto simp: upload_file_returns_post upload_file_post_table)
qed

theorem upload_file_commits_post_witness:
  "imagekit_upload_file env_ok =
       Inr \<lparr> http_status_code = 200, url = ''https://ik.example/cat_Ab12'', name = ''cat_Ab12'' \<rparr>
   \<and> session_commit env_ok = Inr (7, 1000) \<and> session_refresh env_ok = None
   \<and> post_table (snd (upload_file env_ok file_png ''hello'' user_a world0)) \<noteq> post_table world0
   \<and> post_table (snd (upload_file env_ok file_png ''hello'' user_a world0)) =
       [\<lparr> Post_id = 7, Post_user_id = 1, Post_caption = ''hello'',
          Post_url = ''https://ik.example/cat_Ab12'', Post_file_type = ''image'',
          Post_file_name = ''cat_Ab12'', Post_created_at = 1000 \<rparr>]
   \<and> fst (upload_file env_ok file_png ''hello'' user_a world0) =
       Inr (Some \<lparr> Post_id = 7, Post_user_id = 1, Post_caption = ''hello'',
          Post_url = ''https://ik.example/cat_Ab12'', Post_file_type = ''image'',
          Post_file_name = ''cat_Ab12'', Post_created_at = 1000 \<rparr>)"
  using upload_file_commits_post [of env_ok file_png "''hello''" user_a world0]
  by (simp add: upload_defs upload_inputs)

text \<open>The failures that the \<open>except\<close> clause does turn into status 500 with the message.\<close>

lemma upload_file_copy_raises:
  "filename file = Some fname \<Longrightarrow> NamedTemporaryFile env = Inr p \<Longrightarrow> copyfileobj env = Some msg
   \<Longrightarrow> fst (upload_file env file caption user w) = Inl (HTTPException 500 msg)"
  by (simp add: upload_defs)

lemma upload_file_storage_raises:
  "filename file = Some fname \<Longrightarrow> NamedTemporaryFile env = Inr p \<Longrightarrow> copyfileobj env = None
   \<Longrightarrow> open_rb env = None \<Longrightarrow> imagekit_upload_file env = Inl msg
   \<Longrightarrow> fst (upload_file env file caption user w) = Inl (HTTPException 500 msg)"
  by (simp add: upload_defs)

lemma upload_file_commit_raises:
  "filename file = Some fname \<Longrightarrow> NamedTemporaryFile env = Inr p \<Longrightarrow> copyfileobj env = None
   \<Longrightarrow> open_rb env = None \<Longrightarrow> imagekit_upload_file env = Inr res \<Longrightarrow> http_status_code res = 200
   \<Longrightarrow> content_type file = Some ct \<Longrightarrow> session_commit env = Inl msg
   \<Longrightarrow> fst (upload_file env file caption user w) = Inl (HTTPException 500 msg)"
  by (simp add: upload_defs)

text \<open>The two failures that it does not.\<close>

lemma upload_file_non_200:
  "filename file = Some fname \<Longrightarrow> NamedTemporaryFile env = Inr p \<Longrightarrow> copyfileobj env = None
   \<Longrightarrow> open_rb env = None \<Longrightarrow> imagekit_upload_file env = Inr res \<Longrightarrow> http_status_code res \<noteq> 200
   \<Longrightarrow> fst (upload_file env file caption user w) = Inr None"
  by (simp add: upload_defs)

lemma upload_file_tempfile_raises:
  "filename file = None \<or> NamedTemporaryFile env = Inl msg
   \<Longrightarrow> fst (upload_file env file caption user w) = Inl (UnboundLocalError ''temp_file_path'')"
  by (auto simp: upload_defs split: option.splits)

text \<open>
  C2, evaluated where the code departs from it. With Storage answering 500 without
  raising, the upload returns \<open>None\<close> to the caller, no exception at all; with the
  temporary file not created, what leaves the handler is the \<open>UnboundLocalError\<close>
  of the \<open>finally\<close> clause, not an \<open>HTTPException\<close> with the message of the I/O
  error.
\<close>

theorem upload_file_failure_not_surfaced:
  "fst (upload_file env_status_500 file_png ''hello'' user_a world0) = Inr None
   \<and> fst (upload_file env_no_tempfile file_png ''hello'' user_a world0)
       = Inl (UnboundLocalError ''temp_file_path'')"
  by (simp add: upload_defs env_status_500_def env_no_tempfile_def upload_inputs)

text \<open>What the upload releases and what it does not.\<close>

lemma upload_file_removes_temp_file:
  "filename file = Some fname \<Longrightarrow> NamedTemporaryFile env = Inr p \<Longrightarrow> p \<noteq> []
   \<Longrightarrow> p \<notin> files (snd (upload_file env file caption user w))"
  by (simp add: upload_defs split: option.splits sum.splits prod.splits)

lemma upload_file_closes_write_handle:
  "filename file = Some fname \<Longrightarrow> NamedTemporaryFile env = Inr p
   \<Longrightarrow> TempWrite p \<notin> handles (snd (upload_file env file caption user w))"
  by (simp add: upload_defs split: option.splits sum.splits prod.splits)

lemma upload_file_read_handle_closed_on_return:
  "filename file = Some fname \<Longrightarrow> NamedTemporaryFile env = Inr p \<Longrightarrow> copyfileobj env = None
   \<Longrightarrow> open_rb env = None \<Longrightarrow> imagekit_upload_file env = Inr res
   \<Longrightarrow> TempRead p \<notin> handles (snd (upload_file env file caption user w))"
  by (simp add: upload_defs split: option.splits sum.splits prod.splits)

lemma upload_file_read_handle_open_on_raise:
  "filename file = Some fname \<Longrightarrow> NamedTemporaryFile env = Inr p \<Longrightarrow> copyfileobj env = None
   \<Longrightarrow> open_rb env = None \<Longrightarrow> imagekit_upload_file env = Inl msg
   \<Longrightarrow> fst (upload_file env file caption user w) = Inl (HTTPException 500 msg)
       \<and> TempRead p \<in> handles (snd (upload_file env file caption user w))"
  by (simp add: upload_defs)

lemma upload_file_stream_not_closed:
  "filename file = None \<or> NamedTemporaryFile env = Inl msg
   \<Longrightarrow> snd (upload_file env file caption user w) = w"
  by (auto simp: upload_defs split: option.splits)

text \<open>
  C3, evaluated where the code departs from it. When the Storage call raises, the
  upload fails with status 500 and the temporary file is gone from the
  filesystem, but the handle that \<open>open(temp_file_path, "rb")\<close> opened on it is
  still open as the exception leaves the handler: no statement of the handler
  closes it. When the temporary file cannot be created, the \<open>finally\<close> clause
  raises at its first line and \<open>file.file.close()\<close> is skipped: the stream of the
  upload is still open.
\<close>

theorem upload_file_handles_left_open:
  "fst (upload_file env_storage_raises file_png ''hello'' user_a world0)
       = Inl (HTTPException 500 ''upload failed'')
   \<and> files (snd (upload_file env_storage_raises file_png ''hello'' user_a world0)) = {}
   \<and> handles (snd (upload_file env_storage_raises file_png ''hello'' user_a world0))
       = {TempRead ''/tmp/tmpk3x9''}
   \<and> fst (upload_file env_no_tempfile file_png ''hello'' user_a world0)
       = Inl (UnboundLocalError ''temp_file_path'')
   \<and> handles (snd (upload_file env_no_tempfile file_png ''hello'' user_a world0)) = {UploadStream}"
  by (simp add: upload_defs env_storage_raises_def env_no_tempfile_def upload_inputs insert_Diff_if)

text \<open>
  C4. The \<open>file_type\<close> of a post that an upload returns is \<open>video\<close> if and only if the
  declared content type starts with \<open>video/\<close>, and \<open>image\<close> otherwise: it is computed
  from the content type and is one of these two strings.
\<close>

theorem upload_file_file_type:
  assumes "fst (upload_file env file caption user w) = Inr (Some post)"
  shows "\<exists>ct. content_type file = Some ct
           \<and> (Post_file_type post = ''video'' \<longleftrightarrow> startswith ct ''video/'')
           \<and> (\<not> startswith ct ''video/'' \<longrightarrow> Post_file_type post = ''image'')"
  using assms by (auto simp: upload_file_returns_post new_Post_def)

theorem upload_file_file_type_witness:
  "fst (upload_file env_ok file_mp4 ''clip'' user_a world0) =
       Inr (Some \<lparr> Post_id = 7, Post_user_id = 1, Post_caption = ''clip'',
          Post_url = ''https://ik.example/cat_Ab12'', Post_file_type = ''video'',
          Post_file_name = ''cat_Ab12'', Post_created_at = 1000 \<rparr>)
   \<and> content_type file_mp4 = Some ''video/mp4'' \<and> startswith ''video/mp4'' ''video/''"
proof -
  have r: "fst (upload_file env_ok file_mp4 ''clip'' user_a world0) =
       Inr (Some \<lparr> Post_id = 7, Post_user_id = 1, Post_caption = ''clip'',
          Post_url = ''https://ik.example/cat_Ab12'', Post_file_type = ''video'',
          Post_file_name = ''cat_Ab12'', Post_created_at = 1000 \<rparr>)"
    by (simp add: upload_defs upload_inputs)
  from upload_file_file_type [OF r] r show ?thesis
    by (simp add: file_mp4_def)
qed

section \<open>Properties of the delete\<close>

lemmas delete_defs = delete_post_def delete_try_def except_Exception_def

text \<open>
  Every exception that leaves \<open>delete_post\<close> is an \<open>HTTPException\<close> with status 500:
  the 404 and the 403 raised inside the \<open>try\<close> are caught by its \<open>except Exception\<close>
  and raised again as 500. A delete that raises leaves the state as it was.
\<close>

lemma delete_post_raises_500:
  "fst (delete_post UUID commit post_id w user) = Inl e \<Longrightarrow> \<exists>detail. e = HTTPException 500 detail"
  by (auto simp: delete_defs split: sum.splits option.splits if_splits)

lemma delete_post_raise_keeps_state:
  "fst (delete_post UUID commit post_id w user) = Inl e \<Longrightarrow> snd (delete_post UUID commit post_id w user) = w"
  by (auto simp: delete_defs split: sum.splits option.splits if_splits)

lemma delete_post_absent:
  "UUID post_id = Inr post_uuid \<Longrightarrow> \<forall>p\<in>set (post_table w). Post_id p \<noteq> post_uuid
   \<Longrightarrow> delete_post UUID commit post_id w user =
         (Inl (HTTPException 500 (str_exn (HTTPException 404 ''Post not found''))), w)"
  by (simp add: delete_defs find_None_iff [THEN iffD2])

lemma delete_post_not_owner:
  "UUID post_id = Inr post_uuid \<Longrightarrow> find (\<lambda>p. Post_id p = post_uuid) (post_table w) = Some post
   \<Longrightarrow> Post_user_id post \<noteq> User_id user
   \<Longrightarrow> delete_post UUID commit post_id w user =
         (Inl (HTTPException 500
            (str_exn (HTTPException 403 ''You didn't have access to delete this post.''))), w)"
  by (simp add: delete_defs)

lemma str_nat_404: "str_nat 404 = ''404''"
  by (simp add: str_nat.simps digit_char_def)

lemma str_nat_403: "str_nat 403 = ''403''"
  by (simp add: str_nat.simps digit_char_def)

lemma UUID_plain_ff: "UUID_plain ''00000000-0000-0000-0000-0000000000ff'' = Inr 255"
  by (simp add: UUID_plain_def hex_digit_def)

lemma UUID_plain_0b: "UUID_plain ''00000000-0000-0000-0000-00000000000b'' = Inr 11"
  by (simp add: UUID_plain_def hex_digit_def)

text \<open>
  C8, evaluated where the code departs from it. A delete of an id that no row of
  the post table has leaves the state unchanged, but it fails with status 500,
  the 404 surviving only inside the detail string.
\<close>

theorem delete_post_missing_gives_500:
  "delete_post UUID_plain None ''00000000-0000-0000-0000-0000000000ff'' feed_world user_a
     = (Inl (HTTPException 500 ''404: Post not found''), feed_world)"
  by (simp add: delete_defs UUID_plain_ff str_nat_404 feed_world_def user_a_def)

text \<open>
  C9, evaluated where the code departs from it. A delete of a post of another user
  leaves the post in the table and the state unchanged, but it fails with status
  500, the 403 surviving only inside the detail string.
\<close>

theorem delete_post_foreign_gives_500:
  "delete_post UUID_plain None ''00000000-0000-0000-0000-00000000000b'' feed_world user_a
     = (Inl (HTTPException 500 ''403: You didn't have access to delete this post.''), feed_world)"
  by (simp add: delete_defs UUID_plain_0b str_nat_403 feed_world_def user_a_def)

end
